theory Spec2Isabelle
  imports Main
begin

section \<open>Values\<close>

text \<open>
  The library is untyped at run time: a handler may return any JavaScript value, and the
  library inspects it with \<^verbatim>\<open>instanceof\<close>. The universe below holds the kinds of value the
  library tells apart.

  A promise settles at most once, so a promise value is identified with its eventual
  state: \<open>Pending\<close> stands for a promise that never settles.
\<close>

datatype ('a, 'b) promise_state = Pending | Fulfilled 'a | Rejected 'b

text \<open>
  \<^item> \<open>ErrorObject msg\<close> is \<^verbatim>\<open>new Error(msg)\<close>.
  \<^item> \<open>Array\<close> is a JavaScript array; arrays and Results are the iterable objects of
    this model.
  \<^item> \<open>PlainObject\<close> is an ordinary object with data fields only.
  \<^item> \<open>ThenObject o f p\<close> is an object whose \<^verbatim>\<open>then\<close> property can be called; calling it
    registers the two callbacks on the completion \<open>p\<close>. The flag \<open>o\<close> tells whether
    \<^verbatim>\<open>Object.prototype\<close> is on the object's prototype chain (it is not for
    \<^verbatim>\<open>Object.create(null)\<close>), the flag \<open>f\<close> whether \<^verbatim>\<open>Function.prototype\<close> is on the
    prototype chain of its \<^verbatim>\<open>then\<close>. A native promise is \<open>ThenObject True True p\<close>.
  \<^item> \<open>Result\<close> is an instance of one of the two classes of \<^verbatim>\<open>impls/ok.ts\<close> and
    \<^verbatim>\<open>impls/error.ts\<close>.
  \<^item> \<open>ResultPromise\<close> is an instance of the class of \<^verbatim>\<open>impls/promise.ts\<close>, a promise
    whose fulfilment value is a Result.
\<close>

datatype val =
    Undefined
  | Null
  | Boolean bool
  | Number int
  | Str string
  | ErrorObject string
  | Array "val list"
  | PlainObject "(string \<times> val) list"
  | ThenObject bool bool "(val, val) promise_state"
  | Result result
  | ResultPromise "(result, val) promise_state"
and result =
    OkResult val
  | ErrorResult val

text \<open>The field \<^verbatim>\<open>ok\<close> of \<^verbatim>\<open>OkResult\<close> (always true) and of \<^verbatim>\<open>ErrorResult\<close> (always false).\<close>

fun ok :: "result \<Rightarrow> bool" where
  "ok (OkResult value) = True"
| "ok (ErrorResult error) = False"

text \<open>A call either returns a value or throws one.\<close>

datatype completion = Returned val | Threw val

text \<open>
  A function passed to the library may have side effects, so it takes the state of the
  world and returns the new one with its completion. A call that is never made leaves the
  state as it was.
\<close>

type_synonym ('a, 's) fn = "'a \<Rightarrow> 's \<Rightarrow> completion \<times> 's"

section \<open>Helpers (\<^verbatim>\<open>internal/helpers\<close>)\<close>

text \<open>\<^verbatim>\<open>value instanceof Object\<close>: false for a primitive and for an object without
  \<^verbatim>\<open>Object.prototype\<close> on its chain.\<close>

fun instanceof_Object :: "val \<Rightarrow> bool" where
  "instanceof_Object Undefined = False"
| "instanceof_Object Null = False"
| "instanceof_Object (Boolean b) = False"
| "instanceof_Object (Number n) = False"
| "instanceof_Object (Str s) = False"
| "instanceof_Object (ErrorObject m) = True"
| "instanceof_Object (Array xs) = True"
| "instanceof_Object (PlainObject fs) = True"
| "instanceof_Object (ThenObject inherits then_inherits p) = inherits"
| "instanceof_Object (Result r) = True"
| "instanceof_Object (ResultPromise p) = True"

text \<open>\<^verbatim>\<open>value.then instanceof Function\<close>, for a value that is an object.\<close>

fun then_instanceof_Function :: "val \<Rightarrow> bool" where
  "then_instanceof_Function (ThenObject inherits then_inherits p) = then_inherits"
| "then_instanceof_Function (ResultPromise p) = True"
| "then_instanceof_Function v = False"

text \<open>\<^verbatim>\<open>value[Symbol.iterator] instanceof Function\<close>, for a value that is an object. Both
  classes of Result define the method \<^verbatim>\<open>[Symbol.iterator]\<close>.\<close>

fun iterator_instanceof_Function :: "val \<Rightarrow> bool" where
  "iterator_instanceof_Function (Array xs) = True"
| "iterator_instanceof_Function (Result r) = True"
| "iterator_instanceof_Function v = False"

definition isThenable :: "val \<Rightarrow> bool" where
  "isThenable value \<longleftrightarrow> instanceof_Object value \<and> then_instanceof_Function value"

definition isIterable :: "val \<Rightarrow> bool" where
  "isIterable value \<longleftrightarrow> instanceof_Object value \<and> iterator_instanceof_Function value"

section \<open>Free functions (\<^verbatim>\<open>functions.ts\<close>)\<close>

text \<open>\<^verbatim>\<open>ok(value?)\<close>; a missing argument is \<^verbatim>\<open>undefined\<close>, so \<^verbatim>\<open>ok()\<close> is
  \<open>Result_ok Undefined\<close>.\<close>

definition Result_ok :: "val \<Rightarrow> result" where
  "Result_ok value = OkResult value"

definition Result_error :: "val \<Rightarrow> result" where
  "Result_error err = ErrorResult err"

text \<open>\<^verbatim>\<open>is\<close>: \<^verbatim>\<open>result instanceof OkResult || result instanceof ErrorResult\<close>.\<close>

fun Result_is :: "val \<Rightarrow> bool" where
  "Result_is (Result r) = True"
| "Result_is v = False"

text \<open>The \<^verbatim>\<open>for\<close> loop of \<^verbatim>\<open>and\<close>: \<open>Some\<close> is the early \<^verbatim>\<open>return\<close>, \<open>None\<close> falling
  out of the loop.\<close>

fun and_loop :: "result list \<Rightarrow> result option" where
  "and_loop [] = None"
| "and_loop (result # rest) = (if \<not> ok result then Some result else and_loop rest)"

definition Result_and :: "result list \<Rightarrow> result" where
  "Result_and results =
     (if length results = 0 then Result_ok Undefined
      else case and_loop results of
             Some result \<Rightarrow> result
           | None \<Rightarrow> results ! (length results - 1))"

fun or_loop :: "result list \<Rightarrow> result option" where
  "or_loop [] = None"
| "or_loop (result # rest) = (if ok result then Some result else or_loop rest)"

definition Result_or :: "result list \<Rightarrow> result" where
  "Result_or results =
     (if length results = 0 then Result_ok Undefined
      else case or_loop results of
             Some result \<Rightarrow> result
           | None \<Rightarrow> results ! (length results - 1))"

text \<open>\<^verbatim>\<open>flatten\<close>: \<^verbatim>\<open>result.ok ? result.value : result\<close>. The value of a Success is
  returned whatever it is.\<close>

fun Result_flatten :: "result \<Rightarrow> val" where
  "Result_flatten (OkResult value) = value"
| "Result_flatten (ErrorResult error) = Result (ErrorResult error)"

section \<open>The two classes (\<^verbatim>\<open>impls/ok.ts\<close>, \<^verbatim>\<open>impls/error.ts\<close>)\<close>

text \<open>
  Each method is modelled once per class, with the field of \<^verbatim>\<open>this\<close> as first argument, and
  a function \<open>result_m\<close> dispatches on the class as a method call \<^verbatim>\<open>r.m(...)\<close> does.
  JavaScript passes the arguments of a call also to a method that declares none, so the
  methods of the class that ignores them still receive them here.
\<close>

definition OkResult_map :: "val \<Rightarrow> (val, 's) fn \<Rightarrow> 's \<Rightarrow> completion \<times> 's" where
  "OkResult_map value fn s =
     (case fn value s of
        (Returned u, s') \<Rightarrow> (Returned (Result (OkResult u)), s')
      | (Threw x, s') \<Rightarrow> (Threw x, s'))"

definition ErrorResult_map :: "val \<Rightarrow> (val, 's) fn \<Rightarrow> 's \<Rightarrow> completion \<times> 's" where
  "ErrorResult_map error fn s = (Returned (Result (ErrorResult error)), s)"

fun result_map :: "result \<Rightarrow> (val, 's) fn \<Rightarrow> 's \<Rightarrow> completion \<times> 's" where
  "result_map (OkResult value) = OkResult_map value"
| "result_map (ErrorResult error) = ErrorResult_map error"

definition OkResult_mapErr :: "val \<Rightarrow> (val, 's) fn \<Rightarrow> 's \<Rightarrow> completion \<times> 's" where
  "OkResult_mapErr value fn s = (Returned (Result (OkResult value)), s)"

definition ErrorResult_mapErr :: "val \<Rightarrow> (val, 's) fn \<Rightarrow> 's \<Rightarrow> completion \<times> 's" where
  "ErrorResult_mapErr error fn s =
     (case fn error s of
        (Returned f, s') \<Rightarrow> (Returned (Result (ErrorResult f)), s')
      | (Threw x, s') \<Rightarrow> (Threw x, s'))"

fun result_mapErr :: "result \<Rightarrow> (val, 's) fn \<Rightarrow> 's \<Rightarrow> completion \<times> 's" where
  "result_mapErr (OkResult value) = OkResult_mapErr value"
| "result_mapErr (ErrorResult error) = ErrorResult_mapErr error"

text \<open>\<^verbatim>\<open>and(result)\<close> and \<^verbatim>\<open>or(result)\<close> take a value, not a function.\<close>

definition OkResult_and :: "val \<Rightarrow> val \<Rightarrow> val" where
  "OkResult_and value result = result"

definition ErrorResult_and :: "val \<Rightarrow> val \<Rightarrow> val" where
  "ErrorResult_and error result = Result (ErrorResult error)"

fun result_and :: "result \<Rightarrow> val \<Rightarrow> val" where
  "result_and (OkResult value) = OkResult_and value"
| "result_and (ErrorResult error) = ErrorResult_and error"

definition OkResult_or :: "val \<Rightarrow> val \<Rightarrow> val" where
  "OkResult_or value result = Result (OkResult value)"

definition ErrorResult_or :: "val \<Rightarrow> val \<Rightarrow> val" where
  "ErrorResult_or error result = result"

fun result_or :: "result \<Rightarrow> val \<Rightarrow> val" where
  "result_or (OkResult value) = OkResult_or value"
| "result_or (ErrorResult error) = ErrorResult_or error"

definition OkResult_andThen :: "val \<Rightarrow> (val, 's) fn \<Rightarrow> 's \<Rightarrow> completion \<times> 's" where
  "OkResult_andThen value fn s = fn value s"

definition ErrorResult_andThen :: "val \<Rightarrow> (val, 's) fn \<Rightarrow> 's \<Rightarrow> completion \<times> 's" where
  "ErrorResult_andThen error fn s = (Returned (Result (ErrorResult error)), s)"

fun result_andThen :: "result \<Rightarrow> (val, 's) fn \<Rightarrow> 's \<Rightarrow> completion \<times> 's" where
  "result_andThen (OkResult value) = OkResult_andThen value"
| "result_andThen (ErrorResult error) = ErrorResult_andThen error"

definition OkResult_orElse :: "val \<Rightarrow> (val, 's) fn \<Rightarrow> 's \<Rightarrow> completion \<times> 's" where
  "OkResult_orElse value fn s = (Returned (Result (OkResult value)), s)"

definition ErrorResult_orElse :: "val \<Rightarrow> (val, 's) fn \<Rightarrow> 's \<Rightarrow> completion \<times> 's" where
  "ErrorResult_orElse error fn s = fn error s"

fun result_orElse :: "result \<Rightarrow> (val, 's) fn \<Rightarrow> 's \<Rightarrow> completion \<times> 's" where
  "result_orElse (OkResult value) = OkResult_orElse value"
| "result_orElse (ErrorResult error) = ErrorResult_orElse error"

text \<open>The method \<^verbatim>\<open>flatten\<close>: \<^verbatim>\<open>Result.is(this.value) ? this.value : this\<close> on a Success,
  \<^verbatim>\<open>this\<close> on a Failure.\<close>

definition OkResult_flatten :: "val \<Rightarrow> val" where
  "OkResult_flatten value = (if Result_is value then value else Result (OkResult value))"

definition ErrorResult_flatten :: "val \<Rightarrow> val" where
  "ErrorResult_flatten error = Result (ErrorResult error)"

fun result_flatten :: "result \<Rightarrow> val" where
  "result_flatten (OkResult value) = OkResult_flatten value"
| "result_flatten (ErrorResult error) = ErrorResult_flatten error"

section \<open>Iteration\<close>

text \<open>
  An iterator is an object with a \<^verbatim>\<open>next\<close> method and some private state. The library
  makes five kinds:
  \<^item> the iterator of an array, with the elements and the index of the next one;
  \<^item> the single-element iterator of \<^verbatim>\<open>OkResult[Symbol.iterator]\<close>, with \<^verbatim>\<open>this.value\<close> and
    its variable \<^verbatim>\<open>done\<close>;
  \<^item> the iterator of \<^verbatim>\<open>ErrorResult[Symbol.iterator]\<close>;
  \<^item> the generator objects of the two generator methods \<^verbatim>\<open>values\<close>, with the place where
    the body is suspended.
\<close>

datatype generator_state = SuspendedStart | SuspendedYield | Completed

datatype iterator =
    ArrayIterator "val list" nat
  | SingleIterator val bool
  | ErrorIterator
  | OkValues val generator_state
  | ErrorValues generator_state

text \<open>
  One call of \<^verbatim>\<open>next\<close>: \<open>Some v\<close> is \<^verbatim>\<open>{ done: false, value: v }\<close> and \<open>None\<close> is a result
  with \<^verbatim>\<open>done: true\<close>, whose value no consumer of a sequence reads.

  The body of \<^verbatim>\<open>OkResult.values\<close> is
  \<^verbatim>\<open>if (isIterable(this.value)) { return this.value[Symbol.iterator](); } yield this.value;\<close>
  and a \<^verbatim>\<open>return\<close> in a generator ends it: the first \<^verbatim>\<open>next\<close> of the generator then
  answers \<^verbatim>\<open>done: true\<close>.
\<close>

fun iterator_next :: "iterator \<Rightarrow> val option \<times> iterator" where
  "iterator_next (ArrayIterator xs i) =
     (if i < length xs then (Some (xs ! i), ArrayIterator xs (Suc i))
      else (None, ArrayIterator xs i))"
| "iterator_next (SingleIterator value done) =
     (if done then (None, SingleIterator value done)
      else (Some value, SingleIterator value True))"
| "iterator_next ErrorIterator = (None, ErrorIterator)"
| "iterator_next (OkValues value SuspendedStart) =
     (if isIterable value then (None, OkValues value Completed)
      else (Some value, OkValues value SuspendedYield))"
| "iterator_next (OkValues value SuspendedYield) = (None, OkValues value Completed)"
| "iterator_next (OkValues value Completed) = (None, OkValues value Completed)"
| "iterator_next (ErrorValues g) = (None, ErrorValues Completed)"

definition ErrorResult_iterator :: "val \<Rightarrow> iterator option" where
  "ErrorResult_iterator error = Some ErrorIterator"

text \<open>
  \<^verbatim>\<open>value[Symbol.iterator]()\<close> as a method call, and the method of \<^verbatim>\<open>OkResult\<close>. On an
  array the call gives the array's iterator, on a Result the method of its class, and
  \<open>None\<close> is the TypeError of calling a method the value does not have. The method of
  \<^verbatim>\<open>OkResult\<close> calls the method of its value when the value is iterable, so the two are
  defined together.
\<close>

fun Symbol_iterator :: "val \<Rightarrow> iterator option"
  and OkResult_iterator :: "val \<Rightarrow> iterator option" where
  "Symbol_iterator (Array xs) = Some (ArrayIterator xs 0)"
| "Symbol_iterator (Result (OkResult value)) = OkResult_iterator value"
| "Symbol_iterator (Result (ErrorResult error)) = ErrorResult_iterator error"
| "Symbol_iterator v = None"
| "OkResult_iterator value =
     (if isIterable value then Symbol_iterator value
      else Some (SingleIterator value False))"

fun result_iterator :: "result \<Rightarrow> iterator option" where
  "result_iterator (OkResult value) = OkResult_iterator value"
| "result_iterator (ErrorResult error) = ErrorResult_iterator error"

text \<open>Calling a generator method makes a generator object suspended at the start of the
  body.\<close>

definition OkResult_values :: "val \<Rightarrow> iterator" where
  "OkResult_values value = OkValues value SuspendedStart"

definition ErrorResult_values :: "val \<Rightarrow> iterator" where
  "ErrorResult_values error = ErrorValues SuspendedStart"

fun result_values :: "result \<Rightarrow> iterator" where
  "result_values (OkResult value) = OkResult_values value"
| "result_values (ErrorResult error) = ErrorResult_values error"

text \<open>The number of elements an iterator has still to give.\<close>

fun remaining :: "iterator \<Rightarrow> nat" where
  "remaining (ArrayIterator xs i) = length xs - i"
| "remaining (SingleIterator value done) = (if done then 0 else 1)"
| "remaining ErrorIterator = 0"
| "remaining (OkValues value SuspendedStart) = 2"
| "remaining (OkValues value SuspendedYield) = 1"
| "remaining (OkValues value Completed) = 0"
| "remaining (ErrorValues g) = 0"

text \<open>The sequence a consumer (\<^verbatim>\<open>for ... of\<close>, spread) reads from an iterator: it calls
  \<^verbatim>\<open>next\<close> until the answer is done.\<close>

function produced :: "iterator \<Rightarrow> val list" where
  "produced it =
     (case iterator_next it of
        (None, it') \<Rightarrow> []
      | (Some v, it') \<Rightarrow> v # produced it')"
  by pat_completeness auto
termination
proof (relation "measure remaining")
  show "wf (measure remaining)"
    by simp
next
  fix it :: iterator and r it' v
  assume "(r, it') = iterator_next it" and "r = Some v"
  then have "iterator_next it = (Some v, it')"
    by simp
  then have "remaining it' < remaining it"
    by (induction it rule: iterator_next.induct) (auto split: if_splits)
  then show "(it', it) \<in> measure remaining"
    by simp
qed

declare produced.simps [simp del]

section \<open>The asynchronous Result (\<^verbatim>\<open>impls/promise.ts\<close>)\<close>

subsection \<open>The native promise underneath\<close>

text \<open>The state of a \<^verbatim>\<open>ResultPromise\<close>: a promise of a Result.\<close>

type_synonym cell = "(result, val) promise_state"

text \<open>
  While a promise is constructed, the state of the world is the state of that promise
  together with the state \<open>s\<close> of everything else. The two resolving functions that the
  native constructor hands to its executor write the promise; only the first call of either
  has an effect. The library calls \<^verbatim>\<open>resolve\<close> on a fresh \<^verbatim>\<open>OkResult\<close> or \<^verbatim>\<open>ErrorResult\<close>
  only, an object without a \<^verbatim>\<open>then\<close> method, so \<^verbatim>\<open>resolve\<close> fulfils the promise with it.
\<close>

fun native_resolve :: "result \<Rightarrow> cell \<times> 's \<Rightarrow> completion \<times> cell \<times> 's" where
  "native_resolve r (c, s) =
     (Returned Undefined, (case c of Pending \<Rightarrow> Fulfilled r | _ \<Rightarrow> c), s)"

fun native_reject :: "val \<Rightarrow> cell \<times> 's \<Rightarrow> completion \<times> cell \<times> 's" where
  "native_reject reason (c, s) =
     (Returned Undefined, (case c of Pending \<Rightarrow> Rejected reason | _ \<Rightarrow> c), s)"

text \<open>
  \<^verbatim>\<open>void p.then(onfulfilled, onrejected)\<close> on a promise with the eventual state \<open>p\<close>: the
  callback that belongs to the state runs, once, on the state of the world; the promise
  that \<^verbatim>\<open>then\<close> returns is dropped, and with it what the callback returns or throws.
\<close>

definition void_then ::
  "('a, val) promise_state \<Rightarrow> ('a, 's) fn \<Rightarrow> (val, 's) fn \<Rightarrow> 's \<Rightarrow> completion \<times> 's" where
  "void_then p onfulfilled onrejected s =
     (case p of
        Pending \<Rightarrow> (Returned Undefined, s)
      | Fulfilled x \<Rightarrow> (Returned Undefined, snd (onfulfilled x s))
      | Rejected reason \<Rightarrow> (Returned Undefined, snd (onrejected reason s)))"

subsection \<open>Control flow\<close>

text \<open>\<^verbatim>\<open>const value = body; rest(value)\<close>: a throw in \<open>body\<close> leaves the function.\<close>

definition then_do :: "('s \<Rightarrow> completion \<times> 's) \<Rightarrow> (val, 's) fn \<Rightarrow> 's \<Rightarrow> completion \<times> 's" where
  "then_do body rest s =
     (case body s of
        (Returned value, s') \<Rightarrow> rest value s'
      | (Threw error, s') \<Rightarrow> (Threw error, s'))"

text \<open>\<^verbatim>\<open>try { value = body; } catch (error) { return handler(error); } rest(value)\<close>.\<close>

definition try_catch ::
  "('s \<Rightarrow> completion \<times> 's) \<Rightarrow> (val, 's) fn \<Rightarrow> (val, 's) fn \<Rightarrow> 's \<Rightarrow> completion \<times> 's" where
  "try_catch body rest handler s =
     (case body s of
        (Returned value, s') \<Rightarrow> rest value s'
      | (Threw error, s') \<Rightarrow> handler error s')"

text \<open>A function of the caller, called inside an executor: it works on the caller's
  state and cannot reach the promise under construction.\<close>

fun in_caller :: "('a, 's) fn \<Rightarrow> 'a \<Rightarrow> 'c \<times> 's \<Rightarrow> completion \<times> 'c \<times> 's" where
  "in_caller f x (c, s) = (case f x s of (r, s') \<Rightarrow> (r, c, s'))"

subsection \<open>The constructor\<close>

text \<open>
  \<^verbatim>\<open>super((resolve, reject) => executor(value => resolve(new Result.Ok(value)),
  error => resolve(new Result.Error(error)), reject))\<close>.
  The native constructor rejects the promise with what the executor throws. The result is
  the eventual state of the new promise and the state of the caller.
\<close>

definition ResultPromise_new ::
  "((val, cell \<times> 's) fn \<Rightarrow> (val, cell \<times> 's) fn \<Rightarrow> (val, cell \<times> 's) fn
      \<Rightarrow> cell \<times> 's \<Rightarrow> completion \<times> cell \<times> 's)
    \<Rightarrow> 's \<Rightarrow> cell \<times> 's" where
  "ResultPromise_new executor s =
     (case executor (\<lambda>value. native_resolve (OkResult value))
                    (\<lambda>error. native_resolve (ErrorResult error))
                    native_reject (Pending, s) of
        (Returned u, \<sigma>) \<Rightarrow> \<sigma>
      | (Threw reason, \<sigma>) \<Rightarrow> snd (native_reject reason \<sigma>))"

definition ResultPromise_ok :: "val \<Rightarrow> 's \<Rightarrow> cell \<times> 's" where
  "ResultPromise_ok value = ResultPromise_new (\<lambda>resolve reject catcher. resolve value)"

definition ResultPromise_error :: "val \<Rightarrow> 's \<Rightarrow> cell \<times> 's" where
  "ResultPromise_error error = ResultPromise_new (\<lambda>resolve reject catcher. reject error)"

subsection \<open>The value-resolution algorithm\<close>

text \<open>
  \<^verbatim>\<open>handleValueResolution(value, resolver, rejecter, catcher)\<close>. The test
  \<^verbatim>\<open>value instanceof Result.Promise\<close> is the \<open>case\<close> on the constructor. On a
  \<^verbatim>\<open>ResultPromise\<close> the call \<^verbatim>\<open>value.then(f, catcher)\<close> is the method \<^verbatim>\<open>then\<close> of the class
  below; what that call does to the world of \<open>f\<close> and \<open>catcher\<close> is what \<open>void_then\<close>
  does, which lemma \<open>ResultPromise_then_effect\<close> proves once the method is defined.
  The last branch of each inner \<open>case\<close> is never taken.
\<close>

definition handleValueResolution ::
  "val \<Rightarrow> (val, 's) fn \<Rightarrow> (val, 's) fn \<Rightarrow> (val, 's) fn \<Rightarrow> 's \<Rightarrow> completion \<times> 's" where
  "handleValueResolution value resolver rejecter catcher =
     (if isThenable value then
        (case value of
           ResultPromise p \<Rightarrow>
             void_then p
               (\<lambda>result. case result of
                            OkResult v \<Rightarrow> resolver v
                          | ErrorResult e \<Rightarrow> rejecter e)
               catcher
         | ThenObject inherits then_inherits p \<Rightarrow> void_then p resolver catcher
         | _ \<Rightarrow> Pair (Returned Undefined))
      else if Result_is value then
        (case value of
           Result (OkResult v) \<Rightarrow> resolver v
         | Result (ErrorResult e) \<Rightarrow> rejecter e
         | _ \<Rightarrow> Pair (Returned Undefined))
      else resolver value)"

subsection \<open>The methods\<close>

text \<open>
  \<^verbatim>\<open>then(onresult?, onthrow?)\<close>. \<^verbatim>\<open>super.then\<close> is the native method; the promise it
  returns is dropped by \<^verbatim>\<open>void\<close>. An absent handler is \<open>None\<close>.
\<close>

definition ResultPromise_then ::
  "cell \<Rightarrow> (result, 's) fn option \<Rightarrow> (val, 's) fn option \<Rightarrow> 's \<Rightarrow> cell \<times> 's" where
  "ResultPromise_then this onresult onthrow =
     ResultPromise_new (\<lambda>resolve reject catcher.
       void_then this
         (\<lambda>result.
            case onresult of
              None \<Rightarrow>
                (case result of
                   OkResult value \<Rightarrow> resolve value
                 | ErrorResult error \<Rightarrow> reject error)
            | Some onresult' \<Rightarrow>
                try_catch (in_caller onresult' result)
                  (\<lambda>value. handleValueResolution value resolve reject catcher)
                  catcher)
         (case onthrow of
            Some onthrow' \<Rightarrow>
              (\<lambda>reason.
                 try_catch (in_caller onthrow' reason)
                   (\<lambda>value. handleValueResolution value resolve reject catcher)
                   catcher)
          | None \<Rightarrow> catcher))"

text \<open>\<^verbatim>\<open>void this.then(onresult, onthrow)\<close> inside an executor.\<close>

definition void_ResultPromise_then ::
  "cell \<Rightarrow> (result, 's) fn option \<Rightarrow> (val, 's) fn option \<Rightarrow> 's \<Rightarrow> completion \<times> 's" where
  "void_ResultPromise_then this onresult onthrow s =
     (Returned Undefined, snd (ResultPromise_then this onresult onthrow s))"

text \<open>
  \<^verbatim>\<open>catch(onthrow?)\<close>. \<^verbatim>\<open>super.catch(f)\<close> is the native \<^verbatim>\<open>Promise.prototype.catch\<close>, which
  calls \<^verbatim>\<open>this.then(undefined, f)\<close>: the method \<^verbatim>\<open>then\<close> of this class.
\<close>

definition ResultPromise_catch ::
  "cell \<Rightarrow> (val, 's) fn option \<Rightarrow> 's \<Rightarrow> cell \<times> 's" where
  "ResultPromise_catch this onthrow =
     (case onthrow of
        None \<Rightarrow> Pair this
      | Some onthrow' \<Rightarrow>
          ResultPromise_new (\<lambda>resolve reject catcher.
            void_ResultPromise_then this None
              (Some (\<lambda>reason.
                 try_catch (in_caller onthrow' reason)
                   (\<lambda>value. handleValueResolution value resolve reject catcher)
                   catcher))))"

definition ResultPromise_map :: "cell \<Rightarrow> (val, 's) fn \<Rightarrow> 's \<Rightarrow> cell \<times> 's" where
  "ResultPromise_map this fn =
     ResultPromise_new (\<lambda>resolve reject catcher.
       void_ResultPromise_then this
         (Some (\<lambda>result.
            case result of
              ErrorResult error \<Rightarrow> reject error
            | OkResult value \<Rightarrow>
                then_do (in_caller fn value)
                  (\<lambda>value. handleValueResolution value resolve reject catcher)))
         None)"

definition ResultPromise_mapOrElse ::
  "cell \<Rightarrow> (val, 's) fn \<Rightarrow> (val, 's) fn \<Rightarrow> 's \<Rightarrow> cell \<times> 's" where
  "ResultPromise_mapOrElse this defaultValue fn =
     ResultPromise_new (\<lambda>resolve reject catcher.
       void_ResultPromise_then this
         (Some (\<lambda>result.
            then_do
              (case result of
                 OkResult value \<Rightarrow> in_caller fn value
               | ErrorResult error \<Rightarrow> in_caller defaultValue error)
              (\<lambda>value. handleValueResolution value resolve reject catcher)))
         None)"

definition ResultPromise_andThen :: "cell \<Rightarrow> (val, 's) fn \<Rightarrow> 's \<Rightarrow> cell \<times> 's" where
  "ResultPromise_andThen this fn =
     ResultPromise_new (\<lambda>resolve reject catcher.
       void_ResultPromise_then this
         (Some (\<lambda>result.
            case result of
              ErrorResult error \<Rightarrow> reject error
            | OkResult value \<Rightarrow>
                then_do (in_caller fn value)
                  (\<lambda>value. handleValueResolution value resolve reject catcher)))
         None)"

definition ResultPromise_orElse :: "cell \<Rightarrow> (val, 's) fn \<Rightarrow> 's \<Rightarrow> cell \<times> 's" where
  "ResultPromise_orElse this fn =
     ResultPromise_new (\<lambda>resolve reject catcher.
       void_ResultPromise_then this
         (Some (\<lambda>result.
            case result of
              OkResult value \<Rightarrow> resolve value
            | ErrorResult error \<Rightarrow>
                then_do (in_caller fn error)
                  (\<lambda>value. handleValueResolution value resolve reject catcher)))
         None)"

subsection \<open>Adapting a foreign future\<close>

text \<open>
  \<^verbatim>\<open>void promise.then(onfulfilled, onrejected)\<close> on any value, as a method call: on a
  \<^verbatim>\<open>ResultPromise\<close> the method of the class above, on another object with a \<^verbatim>\<open>then\<close> that
  method, and a TypeError on a value without one (reading a property of \<^verbatim>\<open>undefined\<close> or
  \<^verbatim>\<open>null\<close> throws already).
\<close>

definition void_call_then ::
  "val \<Rightarrow> (val, 's) fn \<Rightarrow> (val, 's) fn \<Rightarrow> 's \<Rightarrow> completion \<times> 's" where
  "void_call_then promise onfulfilled onrejected =
     (case promise of
        ResultPromise p \<Rightarrow>
          void_ResultPromise_then p (Some (\<lambda>result. onfulfilled (Result result)))
            (Some onrejected)
      | ThenObject inherits then_inherits p \<Rightarrow> void_then p onfulfilled onrejected
      | Undefined \<Rightarrow>
          Pair (Threw (ErrorObject ''TypeError: Cannot read properties of undefined (reading then)''))
      | Null \<Rightarrow>
          Pair (Threw (ErrorObject ''TypeError: Cannot read properties of null (reading then)''))
      | _ \<Rightarrow> Pair (Threw (ErrorObject ''TypeError: promise.then is not a function'')))"



subsection \<open>From a Result to an asynchronous Result\<close>

definition OkResult_mapAsync :: "val \<Rightarrow> (val, 's) fn \<Rightarrow> 's \<Rightarrow> completion \<times> 's" where
  "OkResult_mapAsync value fn s =
     (case fn value s of
        (Threw x, s') \<Rightarrow> (Threw x, s')
      | (Returned promise, s') \<Rightarrow>
          (case promise of
             ResultPromise p \<Rightarrow> (Returned promise, s')
           | _ \<Rightarrow>
               (case ResultPromise_new
                       (\<lambda>resolve reject catcher. void_call_then promise resolve catcher) s' of
                  (c, s'') \<Rightarrow> (Returned (ResultPromise c), s''))))"

definition ErrorResult_mapAsync :: "val \<Rightarrow> (val, 's) fn \<Rightarrow> 's \<Rightarrow> completion \<times> 's" where
  "ErrorResult_mapAsync error fn s =
     (case ResultPromise_error error s of (c, s') \<Rightarrow> (Returned (ResultPromise c), s'))"

fun result_mapAsync :: "result \<Rightarrow> (val, 's) fn \<Rightarrow> 's \<Rightarrow> completion \<times> 's" where
  "result_mapAsync (OkResult value) = OkResult_mapAsync value"
| "result_mapAsync (ErrorResult error) = ErrorResult_mapAsync error"

text \<open>JavaScript's truth of a value, and the read of a field of a plain object (a missing
  field reads \<^verbatim>\<open>undefined\<close>).\<close>

fun truthy :: "val \<Rightarrow> bool" where
  "truthy Undefined = False"
| "truthy Null = False"
| "truthy (Boolean b) = b"
| "truthy (Number n) = (n \<noteq> 0)"
| "truthy (Str s) = (s \<noteq> [])"
| "truthy v = True"

definition field :: "(string \<times> val) list \<Rightarrow> string \<Rightarrow> val" where
  "field fs name = (case map_of fs name of Some v \<Rightarrow> v | None \<Rightarrow> Undefined)"

text \<open>
  The callback \<^verbatim>\<open>value => value.ok ? resolve(value.value) : reject(value.error)\<close> of
  \<^verbatim>\<open>OkResult.andThenAsync\<close>, on whatever the future hands it: reading a field of
  \<^verbatim>\<open>undefined\<close> or \<^verbatim>\<open>null\<close> throws, and the other kinds of value have no field \<^verbatim>\<open>ok\<close>.
\<close>

definition andThenAsync_onfulfilled ::
  "(val, 's) fn \<Rightarrow> (val, 's) fn \<Rightarrow> (val, 's) fn" where
  "andThenAsync_onfulfilled resolve reject value =
     (case value of
        Undefined \<Rightarrow> Pair (Threw (ErrorObject ''TypeError: cannot read properties of undefined''))
      | Null \<Rightarrow> Pair (Threw (ErrorObject ''TypeError: cannot read properties of null''))
      | Result (OkResult v) \<Rightarrow> resolve v
      | Result (ErrorResult e) \<Rightarrow> reject e
      | PlainObject fs \<Rightarrow>
          (if truthy (field fs ''ok'') then resolve (field fs ''value'')
           else reject (field fs ''error''))
      | _ \<Rightarrow> reject Undefined)"

definition OkResult_andThenAsync :: "val \<Rightarrow> (val, 's) fn \<Rightarrow> 's \<Rightarrow> completion \<times> 's" where
  "OkResult_andThenAsync value fn s =
     (case fn value s of
        (Threw x, s') \<Rightarrow> (Threw x, s')
      | (Returned promise, s') \<Rightarrow>
          (case promise of
             ResultPromise p \<Rightarrow> (Returned promise, s')
           | _ \<Rightarrow>
               (case ResultPromise_new
                       (\<lambda>resolve reject catcher.
                          void_call_then promise (andThenAsync_onfulfilled resolve reject)
                            catcher) s' of
                  (c, s'') \<Rightarrow> (Returned (ResultPromise c), s''))))"

definition ErrorResult_andThenAsync :: "val \<Rightarrow> (val, 's) fn \<Rightarrow> 's \<Rightarrow> completion \<times> 's" where
  "ErrorResult_andThenAsync error fn s =
     (case ResultPromise_error error s of (c, s') \<Rightarrow> (Returned (ResultPromise c), s'))"

fun result_andThenAsync :: "result \<Rightarrow> (val, 's) fn \<Rightarrow> 's \<Rightarrow> completion \<times> 's" where
  "result_andThenAsync (OkResult value) = OkResult_andThenAsync value"
| "result_andThenAsync (ErrorResult error) = ErrorResult_andThenAsync error"

section \<open>What the specification says\<close>

text \<open>A thenable in the specification's sense: an object that exposes the continuation
  capability, that is, with a callable \<^verbatim>\<open>then\<close> property, whatever its prototype chain.\<close>

fun has_callable_then :: "val \<Rightarrow> bool" where
  "has_callable_then (ThenObject inherits then_inherits p) = True"
| "has_callable_then (ResultPromise p) = True"
| "has_callable_then v = False"

text \<open>
  The value-resolution algorithm in the specification's words, as the state in which the
  derived future ends. A thenable splices its completion: an asynchronous Result its
  settled Result and its fault, any other thenable its normal completion as a Success and
  its rejection as a fault. A Result goes to the channel of its variant. Any other value is
  a plain success payload.
\<close>

fun spec_resolution :: "val \<Rightarrow> cell" where
  "spec_resolution (ResultPromise p) = p"
| "spec_resolution (ThenObject inherits then_inherits Pending) = Pending"
| "spec_resolution (ThenObject inherits then_inherits (Fulfilled x)) = Fulfilled (OkResult x)"
| "spec_resolution (ThenObject inherits then_inherits (Rejected reason)) = Rejected reason"
| "spec_resolution (Result (OkResult x)) = Fulfilled (OkResult x)"
| "spec_resolution (Result (ErrorResult e)) = Fulfilled (ErrorResult e)"
| "spec_resolution v = Fulfilled (OkResult v)"

text \<open>
  The thenables that the test by \<^verbatim>\<open>instanceof\<close> misses: an object with a callable \<^verbatim>\<open>then\<close>
  that has no \<^verbatim>\<open>Object.prototype\<close> on its prototype chain, or whose \<^verbatim>\<open>then\<close> has no
  \<^verbatim>\<open>Function.prototype\<close> on its own. The resolution with these thenables taken as plain
  payloads is the specification's resolution everywhere else.
\<close>

fun undetected :: "val \<Rightarrow> bool" where
  "undetected (ThenObject inherits then_inherits p) = (\<not> inherits \<or> \<not> then_inherits)"
| "undetected v = False"

definition detected_resolution :: "val \<Rightarrow> cell" where
  "detected_resolution v =
     (if undetected v then Fulfilled (OkResult v) else spec_resolution v)"

section \<open>Handlers for the examples\<close>

text \<open>A function that returns \<open>v\<close>, one that throws \<open>v\<close>, and one that counts its calls in
  the state and returns its argument. None of them looks at the state it is given.\<close>

definition returning :: "val \<Rightarrow> ('a, 's) fn" where
  "returning v x s = (Returned v, s)"

definition throwing :: "val \<Rightarrow> ('a, 's) fn" where
  "throwing v x s = (Threw v, s)"

definition counting :: "(val, nat) fn" where
  "counting x n = (Returned x, Suc n)"

text \<open>A callback that records its name and its argument in a log.\<close>

definition logging :: "string \<Rightarrow> (val, (string \<times> val) list) fn" where
  "logging name x log = (Returned Undefined, log @ [(name, x)])"

section \<open>The free functions and the short-circuiting methods\<close>

lemma and_loop_first:
  "i < length rs \<Longrightarrow> \<not> ok (rs ! i) \<Longrightarrow> \<forall>j<i. ok (rs ! j) \<Longrightarrow> and_loop rs = Some (rs ! i)"
proof (induction rs arbitrary: i)
  case Nil
  then show ?case by simp
next
  case (Cons r rs)
  show ?case
  proof (cases i)
    case 0
    with Cons.prems show ?thesis by simp
  next
    case (Suc k)
    with Cons.prems have "ok r" by auto
    moreover from Suc Cons.prems have "and_loop rs = Some (rs ! k)"
      by (intro Cons.IH) auto
    ultimately show ?thesis using Suc by simp
  qed
qed

lemma and_loop_none: "\<forall>r\<in>set rs. ok r \<Longrightarrow> and_loop rs = None"
  by (induction rs) auto

lemma or_loop_first:
  "i < length rs \<Longrightarrow> ok (rs ! i) \<Longrightarrow> \<forall>j<i. \<not> ok (rs ! j) \<Longrightarrow> or_loop rs = Some (rs ! i)"
proof (induction rs arbitrary: i)
  case Nil
  then show ?case by simp
next
  case (Cons r rs)
  show ?case
  proof (cases i)
    case 0
    with Cons.prems show ?thesis by simp
  next
    case (Suc k)
    with Cons.prems have "\<not> ok r" by auto
    moreover from Suc Cons.prems have "or_loop rs = Some (rs ! k)"
      by (intro Cons.IH) auto
    ultimately show ?thesis using Suc by simp
  qed
qed

lemma or_loop_none: "\<forall>r\<in>set rs. \<not> ok r \<Longrightarrow> or_loop rs = None"
  by (induction rs) auto

text \<open>
  Claim C7. Over an ordered sequence of Results, \<^verbatim>\<open>and\<close> returns the first Failure (the
  element at the least index that holds one) if there is one and the last element
  otherwise; \<^verbatim>\<open>or\<close> returns the first Success if there is one and the last element
  otherwise; on the empty sequence both return \<^verbatim>\<open>ok()\<close>, a Success holding \<^verbatim>\<open>undefined\<close>.
\<close>

theorem and_or_selection:
  "Result_and [] = Result_ok Undefined
   \<and> Result_or [] = Result_ok Undefined
   \<and> (i < length rs \<and> \<not> ok (rs ! i) \<and> (\<forall>j<i. ok (rs ! j)) \<longrightarrow> Result_and rs = rs ! i)
   \<and> (rs \<noteq> [] \<and> (\<forall>r\<in>set rs. ok r) \<longrightarrow> Result_and rs = last rs)
   \<and> (i < length rs \<and> ok (rs ! i) \<and> (\<forall>j<i. \<not> ok (rs ! j)) \<longrightarrow> Result_or rs = rs ! i)
   \<and> (rs \<noteq> [] \<and> (\<forall>r\<in>set rs. \<not> ok r) \<longrightarrow> Result_or rs = last rs)"
proof (intro conjI impI)
  show "Result_and [] = Result_ok Undefined"
    by (simp add: Result_and_def)
  show "Result_or [] = Result_ok Undefined"
    by (simp add: Result_or_def)
next
  assume "i < length rs \<and> \<not> ok (rs ! i) \<and> (\<forall>j<i. ok (rs ! j))"
  then have "and_loop rs = Some (rs ! i)" and "rs \<noteq> []"
    by (auto simp: and_loop_first)
  then show "Result_and rs = rs ! i"
    by (simp add: Result_and_def)
next
  assume "rs \<noteq> [] \<and> (\<forall>r\<in>set rs. ok r)"
  then show "Result_and rs = last rs"
    by (simp add: Result_and_def and_loop_none last_conv_nth)
next
  assume "i < length rs \<and> ok (rs ! i) \<and> (\<forall>j<i. \<not> ok (rs ! j))"
  then have "or_loop rs = Some (rs ! i)" and "rs \<noteq> []"
    by (auto simp: or_loop_first)
  then show "Result_or rs = rs ! i"
    by (simp add: Result_or_def)
next
  assume "rs \<noteq> [] \<and> (\<forall>r\<in>set rs. \<not> ok r)"
  then show "Result_or rs = last rs"
    by (simp add: Result_or_def or_loop_none last_conv_nth)
qed

text \<open>The examples of the specification: \<^verbatim>\<open>and([ok(1), error("e"), ok(2)])\<close>,
  \<^verbatim>\<open>and([ok(1), ok(2)])\<close>, \<^verbatim>\<open>or([error("a"), ok(3)])\<close> and \<^verbatim>\<open>or([error("a"), error("b")])\<close>.\<close>

theorem and_or_selection_witness:
  "Result_and [Result_ok (Number 1), Result_error (Str ''e''), Result_ok (Number 2)]
     = Result_error (Str ''e'')
   \<and> Result_and [Result_ok (Number 1), Result_ok (Number 2)] = Result_ok (Number 2)
   \<and> Result_or [Result_error (Str ''a''), Result_ok (Number 3)] = Result_ok (Number 3)
   \<and> Result_or [Result_error (Str ''a''), Result_error (Str ''b'')] = Result_error (Str ''b'')"
  using
    and_or_selection [of 1 "[Result_ok (Number 1), Result_error (Str ''e''), Result_ok (Number 2)]"]
    and_or_selection [of 0 "[Result_ok (Number 1), Result_ok (Number 2)]"]
    and_or_selection [of 1 "[Result_error (Str ''a''), Result_ok (Number 3)]"]
    and_or_selection [of 0 "[Result_error (Str ''a''), Result_error (Str ''b'')]"]
  by (simp add: Result_ok_def Result_error_def)

text \<open>
  Claim C8. The free function \<^verbatim>\<open>flatten\<close> satisfies \<^verbatim>\<open>flatten(ok(ok(x))) = ok(x)\<close>,
  \<^verbatim>\<open>flatten(ok(error(e))) = error(e)\<close> and \<^verbatim>\<open>flatten(error(e)) = error(e)\<close>: on a Success it
  returns the inner Result as it is, on a Failure the outer Failure unchanged. The method
  \<^verbatim>\<open>flatten\<close> on a Success returns the value when the value is a Result and the Success
  unchanged when it is not.
\<close>

theorem flatten_laws:
  "Result_flatten (Result_ok (Result (Result_ok x))) = Result (Result_ok x)
   \<and> Result_flatten (Result_ok (Result (Result_error e))) = Result (Result_error e)
   \<and> Result_flatten (Result_error e) = Result (Result_error e)
   \<and> Result_flatten (Result_ok (Result inner)) = Result inner
   \<and> (Result_is v \<longrightarrow> result_flatten (Result_ok v) = v)
   \<and> (\<not> Result_is v \<longrightarrow> result_flatten (Result_ok v) = Result (Result_ok v))"
  by (simp add: Result_ok_def Result_error_def OkResult_flatten_def)

theorem flatten_laws_witness:
  "Result_is (Result (Result_error (Str ''e'')))
   \<and> result_flatten (Result_ok (Result (Result_error (Str ''e'')))) = Result (Result_error (Str ''e''))
   \<and> \<not> Result_is (Number 5)
   \<and> result_flatten (Result_ok (Number 5)) = Result (Result_ok (Number 5))"
  using flatten_laws [of x e inner "Result (Result_error (Str ''e''))"]
    flatten_laws [of x e inner "Number 5"]
  by simp

text \<open>
  Claim C6. A short-circuiting method never calls its function on the branch it does not
  apply to: on a Failure, \<^verbatim>\<open>map\<close> and \<^verbatim>\<open>andThen\<close> return the same Failure; on a Success,
  \<^verbatim>\<open>mapErr\<close>, \<^verbatim>\<open>or\<close> and \<^verbatim>\<open>orElse\<close> return the same Success. The state of the world after the
  call is the state before it, whatever the function would do to it.
\<close>

theorem short_circuit:
  "result_map (Result_error e) fn s = (Returned (Result (Result_error e)), s)
   \<and> result_andThen (Result_error e) fn s = (Returned (Result (Result_error e)), s)
   \<and> result_mapErr (Result_ok x) fn s = (Returned (Result (Result_ok x)), s)
   \<and> result_or (Result_ok x) other = Result (Result_ok x)
   \<and> result_orElse (Result_ok x) fn s = (Returned (Result (Result_ok x)), s)"
  by (simp add: Result_ok_def Result_error_def ErrorResult_map_def ErrorResult_andThen_def
      OkResult_mapErr_def OkResult_or_def OkResult_orElse_def)

lemma short_circuit_counting:
  "result_map (Result_error e) counting 0 = (Returned (Result (Result_error e)), 0)
   \<and> result_map (Result_ok x) counting 0 = (Returned (Result (Result_ok x)), 1)"
  by (simp add: Result_ok_def Result_error_def ErrorResult_map_def OkResult_map_def counting_def)


section \<open>Iteration\<close>

lemma produced_ArrayIterator: "produced (ArrayIterator xs i) = drop i xs"
proof (induction "length xs - i" arbitrary: i)
  case 0
  then show ?case
    by (subst produced.simps) simp
next
  case (Suc n)
  then have "i < length xs" and "n = length xs - Suc i"
    by auto
  then have "produced (ArrayIterator xs (Suc i)) = drop (Suc i) xs"
    using Suc.hyps(1) by blast
  with \<open>i < length xs\<close> show ?case
    by (subst produced.simps) (simp add: Cons_nth_drop_Suc)
qed

text \<open>\<^verbatim>\<open>OkResult[Symbol.iterator]\<close> gives the elements of an array, in order, and the
  value itself when the value is not iterable; \<^verbatim>\<open>ErrorResult[Symbol.iterator]\<close> gives
  nothing.\<close>

lemma result_iterator_produced:
  "map_option produced (result_iterator (Result_ok (Array xs))) = Some xs
   \<and> (\<not> isIterable v \<longrightarrow> map_option produced (result_iterator (Result_ok v)) = Some [v])
   \<and> map_option produced (result_iterator (Result_error e)) = Some []"
proof -
  have "produced (SingleIterator v True) = []"
    by (subst produced.simps) simp
  then have "produced (SingleIterator v False) = [v]"
    by (subst produced.simps) simp
  moreover have "produced ErrorIterator = []"
    by (subst produced.simps) simp
  ultimately show ?thesis
    by (simp add: Result_ok_def Result_error_def ErrorResult_iterator_def isIterable_def
        produced_ArrayIterator)
qed

text \<open>\<^verbatim>\<open>values\<close> gives the value itself when the value is not iterable, and nothing on a
  Failure.\<close>

lemma result_values_produced:
  "(\<not> isIterable v \<longrightarrow> produced (result_values (Result_ok v)) = [v])
   \<and> produced (result_values (Result_error e)) = []"
proof -
  have "produced (OkValues v SuspendedYield) = []"
    by (subst produced.simps) simp
  then have "\<not> isIterable v \<Longrightarrow> produced (OkValues v SuspendedStart) = [v]"
    by (subst produced.simps) simp
  moreover have "produced (ErrorValues SuspendedStart) = []"
    by (subst produced.simps) simp
  ultimately show ?thesis
    by (simp add: Result_ok_def Result_error_def OkResult_values_def ErrorResult_values_def)
qed

text \<open>On a Success that holds an iterable, \<^verbatim>\<open>values\<close> gives nothing, whatever the
  elements.\<close>

lemma values_of_iterable:
  "isIterable v \<Longrightarrow> produced (result_values (Result_ok v)) = []"
  by (subst produced.simps) (simp add: Result_ok_def OkResult_values_def)

text \<open>A Result is iterable too: on a Success that holds a Result, \<^verbatim>\<open>[Symbol.iterator]\<close>
  gives the iterator of the inner Result, and \<^verbatim>\<open>values\<close> gives nothing.\<close>

lemma result_iteration_nested:
  "isIterable (Result r)
   \<and> result_iterator (Result_ok (Result r)) = result_iterator r
   \<and> produced (result_values (Result_ok (Result r))) = []"
proof -
  have "isIterable (Result r)"
    by (simp add: isIterable_def)
  moreover have "result_iterator (Result_ok (Result r)) = result_iterator r"
    by (cases r) (simp_all add: Result_ok_def isIterable_def)
  moreover have "produced (OkValues (Result r) SuspendedStart) = []"
    by (subst produced.simps) (simp add: isIterable_def)
  ultimately show ?thesis
    by (simp add: Result_ok_def OkResult_values_def)
qed

text \<open>
  Claim C5. The iteration of a Result gives: on a Success whose value is iterable, the
  elements of that value in order; on a Success whose value is not iterable, the value as
  the single element; on a Failure, nothing. The claim holds of \<^verbatim>\<open>[Symbol.iterator]\<close> (lemma
  \<open>result_iterator_produced\<close>) and fails of the generator method \<^verbatim>\<open>values\<close>, which the
  claim names too: \<^verbatim>\<open>ok([1, 2, 3]).values()\<close> gives the empty sequence, not 1, 2, 3, because
  the body returns the iterator of the array where it should delegate to it.
\<close>

theorem values_of_array_empty:
  "produced (result_values (Result_ok (Array [Number 1, Number 2, Number 3]))) = []
   \<and> map_option produced (result_iterator (Result_ok (Array [Number 1, Number 2, Number 3])))
       = Some [Number 1, Number 2, Number 3]"
proof -
  have "isIterable (Array [Number 1, Number 2, Number 3])"
    by (simp add: isIterable_def)
  then have "produced (OkValues (Array [Number 1, Number 2, Number 3]) SuspendedStart) = []"
    by (subst produced.simps) simp
  then show ?thesis
    by (simp add: Result_ok_def OkResult_values_def isIterable_def produced_ArrayIterator)
qed

section \<open>The asynchronous Result\<close>

text \<open>Resolving a value into a promise under construction leaves the caller's state
  alone.\<close>

lemma handleValueResolution_keeps_caller:
  "snd (snd (handleValueResolution v (\<lambda>value. native_resolve (OkResult value))
      (\<lambda>error. native_resolve (ErrorResult error)) native_reject (c, s))) = s"
  by (cases v)
    (auto simp: handleValueResolution_def isThenable_def void_then_def
      split: promise_state.splits result.splits)

text \<open>
  The method \<^verbatim>\<open>then\<close> of the class, with both handlers given and its promise dropped, does
  to the world of its handlers what the native \<^verbatim>\<open>then\<close> does: this is the reading of
  \<^verbatim>\<open>value.then(f, catcher)\<close> that \<open>handleValueResolution\<close> uses.
\<close>

lemma ResultPromise_then_effect:
  "void_ResultPromise_then p (Some f) (Some g) s = void_then p f g s"
  by (cases p)
    (auto simp: void_ResultPromise_then_def ResultPromise_then_def ResultPromise_new_def
      void_then_def try_catch_def handleValueResolution_keeps_caller
      split: prod.splits completion.splits)

text \<open>The algorithm, run on the callbacks of a fresh promise, leaves that promise in the
  state of the resolution with the undetected thenables taken as plain payloads.\<close>

lemma handleValueResolution_fresh:
  "handleValueResolution v (\<lambda>value. native_resolve (OkResult value))
      (\<lambda>error. native_resolve (ErrorResult error)) native_reject (Pending, s)
   = (Returned Undefined, detected_resolution v, s)"
proof (cases v)
  case (ThenObject inherits then_inherits p)
  then show ?thesis
    by (cases p)
      (auto simp: handleValueResolution_def detected_resolution_def isThenable_def void_then_def)
next
  case (Result r)
  then show ?thesis
    by (cases r) (simp_all add: handleValueResolution_def detected_resolution_def isThenable_def)
next
  case (ResultPromise p)
  then show ?thesis
    by (simp add: handleValueResolution_def detected_resolution_def isThenable_def void_then_def
        split: promise_state.splits result.splits)
qed (simp_all add: handleValueResolution_def detected_resolution_def isThenable_def)

text \<open>
  Claim C4. \<^verbatim>\<open>then\<close> without an on-settled handler passes a settled Success through as a
  Success with the same value and a settled Failure as a Failure with the same error;
  without an on-fault handler, a fault of the source is the fault of the derived future.
\<close>

theorem then_passthrough:
  "ResultPromise_then (Fulfilled (Result_ok v)) None onthrow s = (Fulfilled (Result_ok v), s)
   \<and> ResultPromise_then (Fulfilled (Result_error e)) None onthrow s
       = (Fulfilled (Result_error e), s)
   \<and> ResultPromise_then (Rejected reason) onresult None s = (Rejected reason, s)"
  by (simp add: Result_ok_def Result_error_def ResultPromise_then_def ResultPromise_new_def
      void_then_def)

text \<open>
  Claim C1, as stated: the value a handler returns is routed as the specification's
  resolution says, a generic thenable splicing its completion. It fails for a thenable
  that the library's test by \<^verbatim>\<open>instanceof\<close> does not detect. A handler of \<^verbatim>\<open>andThen\<close> that
  returns \<^verbatim>\<open>Object.assign(Object.create(null), { then(f) { f(1) } })\<close> settles the derived
  future as a Success that holds the object itself, where the specification's resolution
  is a Success that holds the completion 1.
\<close>

theorem value_resolution_routing_counterexample:
  "has_callable_then (ThenObject False True (Fulfilled (Number 1)))
   \<and> spec_resolution (ThenObject False True (Fulfilled (Number 1)))
       = Fulfilled (Result_ok (Number 1))
   \<and> ResultPromise_andThen (Fulfilled (Result_ok (Number 2)))
        (returning (ThenObject False True (Fulfilled (Number 1)))) ()
       = (Fulfilled (Result_ok (ThenObject False True (Fulfilled (Number 1)))), ())
   \<and> ResultPromise_andThen (Fulfilled (Result_ok (Number 2)))
        (returning (ThenObject False True (Fulfilled (Number 1)))) ()
       \<noteq> (spec_resolution (ThenObject False True (Fulfilled (Number 1))), ())"
  by (simp add: Result_ok_def returning_def ResultPromise_andThen_def
      void_ResultPromise_then_def ResultPromise_then_def ResultPromise_new_def void_then_def
      try_catch_def then_do_def handleValueResolution_def isThenable_def)

text \<open>
  Claim C1, amended. When the handler of a combinator (\<^verbatim>\<open>then\<close> on a settled source, \<^verbatim>\<open>then\<close>
  and \<^verbatim>\<open>catch\<close> on a faulted one, \<^verbatim>\<open>map\<close>, \<^verbatim>\<open>mapOrElse\<close>, \<^verbatim>\<open>andThen\<close> and \<^verbatim>\<open>orElse\<close> on the
  branch that calls it) returns \<open>v\<close>, the derived future ends as follows: an asynchronous
  Result gives its settled Result or its fault; another thenable that is an instance of
  \<^verbatim>\<open>Object\<close> and whose \<^verbatim>\<open>then\<close> is an instance of \<^verbatim>\<open>Function\<close> gives its completion as a
  Success and its rejection as a fault; a Result gives its own variant; any other value,
  a thenable that fails one of the two tests included, is a plain payload of a Success.
\<close>

theorem detected_value_resolution_routing:
  "(hr r s = (Returned v, s') \<longrightarrow>
      ResultPromise_then (Fulfilled r) (Some hr) onthrow s = (detected_resolution v, s'))
   \<and> (h x s = (Returned v, s') \<longrightarrow>
      ResultPromise_then (Rejected x) onresult (Some h) s = (detected_resolution v, s'))
   \<and> (h x s = (Returned v, s') \<longrightarrow>
      ResultPromise_catch (Rejected x) (Some h) s = (detected_resolution v, s'))
   \<and> (h x s = (Returned v, s') \<longrightarrow>
      ResultPromise_map (Fulfilled (OkResult x)) h s = (detected_resolution v, s'))
   \<and> (h x s = (Returned v, s') \<longrightarrow>
      ResultPromise_mapOrElse (Fulfilled (OkResult x)) d h s = (detected_resolution v, s'))
   \<and> (h x s = (Returned v, s') \<longrightarrow>
      ResultPromise_mapOrElse (Fulfilled (ErrorResult x)) h f s = (detected_resolution v, s'))
   \<and> (h x s = (Returned v, s') \<longrightarrow>
      ResultPromise_andThen (Fulfilled (OkResult x)) h s = (detected_resolution v, s'))
   \<and> (h x s = (Returned v, s') \<longrightarrow>
      ResultPromise_orElse (Fulfilled (ErrorResult x)) h s = (detected_resolution v, s'))"
proof (intro conjI impI)
  assume "hr r s = (Returned v, s')"
  then show "ResultPromise_then (Fulfilled r) (Some hr) onthrow s = (detected_resolution v, s')"
    by (simp add: ResultPromise_then_def ResultPromise_new_def void_then_def try_catch_def
        handleValueResolution_fresh)
next
  assume "h x s = (Returned v, s')"
  then show "ResultPromise_then (Rejected x) onresult (Some h) s = (detected_resolution v, s')"
    by (simp add: ResultPromise_then_def ResultPromise_new_def void_then_def try_catch_def
        handleValueResolution_fresh)
next
  assume "h x s = (Returned v, s')"
  then show "ResultPromise_catch (Rejected x) (Some h) s = (detected_resolution v, s')"
    by (simp add: ResultPromise_catch_def void_ResultPromise_then_def ResultPromise_then_def
        ResultPromise_new_def void_then_def try_catch_def handleValueResolution_fresh)
next
  assume "h x s = (Returned v, s')"
  then show "ResultPromise_map (Fulfilled (OkResult x)) h s = (detected_resolution v, s')"
    by (simp add: ResultPromise_map_def void_ResultPromise_then_def ResultPromise_then_def
        ResultPromise_new_def void_then_def try_catch_def then_do_def
        handleValueResolution_fresh)
next
  assume "h x s = (Returned v, s')"
  then show "ResultPromise_mapOrElse (Fulfilled (OkResult x)) d h s = (detected_resolution v, s')"
    by (simp add: ResultPromise_mapOrElse_def void_ResultPromise_then_def ResultPromise_then_def
        ResultPromise_new_def void_then_def try_catch_def then_do_def
        handleValueResolution_fresh)
next
  assume "h x s = (Returned v, s')"
  then show "ResultPromise_mapOrElse (Fulfilled (ErrorResult x)) h f s = (detected_resolution v, s')"
    by (simp add: ResultPromise_mapOrElse_def void_ResultPromise_then_def ResultPromise_then_def
        ResultPromise_new_def void_then_def try_catch_def then_do_def
        handleValueResolution_fresh)
next
  assume "h x s = (Returned v, s')"
  then show "ResultPromise_andThen (Fulfilled (OkResult x)) h s = (detected_resolution v, s')"
    by (simp add: ResultPromise_andThen_def void_ResultPromise_then_def ResultPromise_then_def
        ResultPromise_new_def void_then_def try_catch_def then_do_def
        handleValueResolution_fresh)
next
  assume "h x s = (Returned v, s')"
  then show "ResultPromise_orElse (Fulfilled (ErrorResult x)) h s = (detected_resolution v, s')"
    by (simp add: ResultPromise_orElse_def void_ResultPromise_then_def ResultPromise_then_def
        ResultPromise_new_def void_then_def try_catch_def then_do_def
        handleValueResolution_fresh)
qed

text \<open>
  The handler returns, in turn: \<^verbatim>\<open>error("bad")\<close>; a native promise rejected with "nope";
  an asynchronous Result faulted with "boom"; an object with a \<^verbatim>\<open>then\<close> that is not an
  instance of \<^verbatim>\<open>Function\<close>; the number 3.
\<close>

theorem detected_value_resolution_routing_witness:
  "returning (Result (ErrorResult (Str ''bad''))) (Number 2) ()
     = (Returned (Result (ErrorResult (Str ''bad''))), ())
   \<and> ResultPromise_then (Fulfilled (OkResult (Number 2)))
        (Some (returning (Result (ErrorResult (Str ''bad''))))) None ()
       = (Fulfilled (ErrorResult (Str ''bad'')), ())
   \<and> ResultPromise_then (Rejected (Number 2)) None
        (Some (returning (Result (ErrorResult (Str ''bad''))))) ()
       = (Fulfilled (ErrorResult (Str ''bad'')), ())
   \<and> ResultPromise_catch (Rejected (Number 2))
        (Some (returning (Result (ErrorResult (Str ''bad''))))) ()
       = (Fulfilled (ErrorResult (Str ''bad'')), ())
   \<and> ResultPromise_map (Fulfilled (OkResult (Number 2)))
        (returning (Result (ErrorResult (Str ''bad'')))) ()
       = (Fulfilled (ErrorResult (Str ''bad'')), ())
   \<and> ResultPromise_mapOrElse (Fulfilled (OkResult (Number 2))) (returning Undefined)
        (returning (Result (ErrorResult (Str ''bad'')))) ()
       = (Fulfilled (ErrorResult (Str ''bad'')), ())
   \<and> ResultPromise_mapOrElse (Fulfilled (ErrorResult (Number 2)))
        (returning (Result (ErrorResult (Str ''bad'')))) (returning Undefined) ()
       = (Fulfilled (ErrorResult (Str ''bad'')), ())
   \<and> ResultPromise_andThen (Fulfilled (OkResult (Number 2)))
        (returning (Result (ErrorResult (Str ''bad'')))) ()
       = (Fulfilled (ErrorResult (Str ''bad'')), ())
   \<and> ResultPromise_orElse (Fulfilled (ErrorResult (Number 2)))
        (returning (Result (ErrorResult (Str ''bad'')))) ()
       = (Fulfilled (ErrorResult (Str ''bad'')), ())
   \<and> ResultPromise_andThen (Fulfilled (OkResult (Number 2)))
        (returning (ThenObject True True (Rejected (Str ''nope'')))) ()
       = (Rejected (Str ''nope''), ())
   \<and> ResultPromise_andThen (Fulfilled (OkResult (Number 2)))
        (returning (ResultPromise (Rejected (Str ''boom'')))) ()
       = (Rejected (Str ''boom''), ())
   \<and> ResultPromise_andThen (Fulfilled (OkResult (Number 2)))
        (returning (ThenObject True False (Fulfilled (Number 1)))) ()
       = (Fulfilled (OkResult (ThenObject True False (Fulfilled (Number 1)))), ())
   \<and> ResultPromise_andThen (Fulfilled (OkResult (Number 2))) (returning (Number 3)) ()
       = (Fulfilled (OkResult (Number 3)), ())"
  using
    detected_value_resolution_routing
      [where hr = "returning (Result (ErrorResult (Str ''bad'')))"
         and h = "returning (Result (ErrorResult (Str ''bad'')))"
         and r = "OkResult (Number 2)" and x = "Number 2" and s = "()" and s' = "()"
         and v = "Result (ErrorResult (Str ''bad''))" and onthrow = None and onresult = None
         and d = "returning Undefined" and f = "returning Undefined"]
    detected_value_resolution_routing
      [where h = "returning (ThenObject True True (Rejected (Str ''nope'')))"
         and x = "Number 2" and s = "()" and s' = "()"
         and v = "ThenObject True True (Rejected (Str ''nope''))"]
    detected_value_resolution_routing
      [where h = "returning (ResultPromise (Rejected (Str ''boom'')))"
         and x = "Number 2" and s = "()" and s' = "()"
         and v = "ResultPromise (Rejected (Str ''boom''))"]
    detected_value_resolution_routing
      [where h = "returning (ThenObject True False (Fulfilled (Number 1)))"
         and x = "Number 2" and s = "()" and s' = "()"
         and v = "ThenObject True False (Fulfilled (Number 1))"]
    detected_value_resolution_routing
      [where h = "returning (Number 3)"
         and x = "Number 2" and s = "()" and s' = "()" and v = "Number 3"]
  by (simp add: returning_def detected_resolution_def)

text \<open>A handler of \<^verbatim>\<open>then\<close> or \<^verbatim>\<open>catch\<close> that throws faults the derived future with what it
  threw.\<close>

lemma then_catch_handler_throws:
  "(hr r s = (Threw x, s') \<longrightarrow>
      ResultPromise_then (Fulfilled r) (Some hr) onthrow s = (Rejected x, s'))
   \<and> (h y s = (Threw x, s') \<longrightarrow>
      ResultPromise_then (Rejected y) onresult (Some h) s = (Rejected x, s'))
   \<and> (h y s = (Threw x, s') \<longrightarrow>
      ResultPromise_catch (Rejected y) (Some h) s = (Rejected x, s'))"
  by (simp add: ResultPromise_catch_def void_ResultPromise_then_def ResultPromise_then_def
      ResultPromise_new_def void_then_def try_catch_def handleValueResolution_keeps_caller)

text \<open>
  A handler of \<^verbatim>\<open>map\<close>, \<^verbatim>\<open>mapOrElse\<close>, \<^verbatim>\<open>andThen\<close> or \<^verbatim>\<open>orElse\<close> that throws leaves the derived
  future pending for ever. These methods call the handler inside the function they pass to
  \<^verbatim>\<open>this.then\<close>, without a \<^verbatim>\<open>try\<close> of their own; the \<^verbatim>\<open>try\<close> of \<^verbatim>\<open>then\<close> catches the throw
  and faults the promise that \<^verbatim>\<open>then\<close> made, which \<^verbatim>\<open>void\<close> drops.
\<close>

lemma combinator_handler_throws:
  "(h y s = (Threw x, s') \<longrightarrow> ResultPromise_map (Fulfilled (OkResult y)) h s = (Pending, s'))
   \<and> (h y s = (Threw x, s') \<longrightarrow>
      ResultPromise_mapOrElse (Fulfilled (OkResult y)) d h s = (Pending, s'))
   \<and> (h y s = (Threw x, s') \<longrightarrow>
      ResultPromise_mapOrElse (Fulfilled (ErrorResult y)) h f s = (Pending, s'))
   \<and> (h y s = (Threw x, s') \<longrightarrow>
      ResultPromise_andThen (Fulfilled (OkResult y)) h s = (Pending, s'))
   \<and> (h y s = (Threw x, s') \<longrightarrow>
      ResultPromise_orElse (Fulfilled (ErrorResult y)) h s = (Pending, s'))"
  by (simp add: ResultPromise_map_def ResultPromise_mapOrElse_def ResultPromise_andThen_def
      ResultPromise_orElse_def void_ResultPromise_then_def ResultPromise_then_def
      ResultPromise_new_def void_then_def try_catch_def then_do_def)

text \<open>The promise that \<^verbatim>\<open>this.then\<close> makes inside \<^verbatim>\<open>andThen\<close> is the one that takes the
  fault.\<close>

lemma andThen_inner_promise_faulted:
  "ResultPromise_then (Fulfilled (OkResult (Number 2)))
     (Some (\<lambda>result. case result of
              ErrorResult error \<Rightarrow> native_resolve (ErrorResult error)
            | OkResult value \<Rightarrow>
                then_do (in_caller (throwing (ErrorObject ''x'')) value)
                  (\<lambda>value. handleValueResolution value
                     (\<lambda>value. native_resolve (OkResult value))
                     (\<lambda>error. native_resolve (ErrorResult error)) native_reject)))
     None (Pending, ())
   = (Rejected (ErrorObject ''x''), Pending, ())"
  by (simp add: ResultPromise_then_def ResultPromise_new_def void_then_def try_catch_def
      then_do_def throwing_def)

text \<open>
  Claim C2. A handler that throws faults the derived future with the thrown value and
  never makes it a Failure. This holds of \<^verbatim>\<open>then\<close> and \<^verbatim>\<open>catch\<close> (lemma
  \<open>then_catch_handler_throws\<close>) and fails of the four other combinators: a Success(2)
  combined by \<^verbatim>\<open>andThen(v => { throw new Error("x") })\<close> stays pending, and so it does by
  \<^verbatim>\<open>map\<close>, by \<^verbatim>\<open>mapOrElse\<close> and, from a Failure(2), by \<^verbatim>\<open>orElse\<close>, while \<^verbatim>\<open>then\<close> with the same
  handler faults with the error.
\<close>

theorem handler_throw_pending:
  "ResultPromise_andThen (Fulfilled (Result_ok (Number 2))) (throwing (ErrorObject ''x'')) ()
     = (Pending, ())
   \<and> ResultPromise_map (Fulfilled (Result_ok (Number 2))) (throwing (ErrorObject ''x'')) ()
     = (Pending, ())
   \<and> ResultPromise_mapOrElse (Fulfilled (Result_ok (Number 2))) (returning Undefined)
        (throwing (ErrorObject ''x'')) ()
     = (Pending, ())
   \<and> ResultPromise_orElse (Fulfilled (Result_error (Number 2))) (throwing (ErrorObject ''x'')) ()
     = (Pending, ())
   \<and> ResultPromise_then (Fulfilled (Result_ok (Number 2)))
        (Some (throwing (ErrorObject ''x''))) None ()
     = (Rejected (ErrorObject ''x''), ())"
  by (simp add: Result_ok_def Result_error_def throwing_def
      ResultPromise_map_def ResultPromise_mapOrElse_def ResultPromise_andThen_def
      ResultPromise_orElse_def void_ResultPromise_then_def ResultPromise_then_def
      ResultPromise_new_def void_then_def try_catch_def then_do_def)



text \<open>
  Claim C9, as stated: every value that is an object with a callable \<^verbatim>\<open>then\<close> property is
  treated as a future by the algorithm and never handed unchanged to settle-success. It
  fails for an object without \<^verbatim>\<open>Object.prototype\<close> on its prototype chain, such as
  \<^verbatim>\<open>Object.assign(Object.create(null), { then(f) { f(1) } })\<close>: \<open>isThenable\<close> tests
  \<^verbatim>\<open>value instanceof Object\<close>, the object is not a Result, and the algorithm calls the
  resolver with the object itself and not with its completion 1.
\<close>

theorem thenable_detection_counterexample:
  "has_callable_then (ThenObject False True (Fulfilled (Number 1)))
   \<and> handleValueResolution (ThenObject False True (Fulfilled (Number 1)))
        (logging ''resolver'') (logging ''rejecter'') (logging ''catcher'') []
       = (Returned Undefined, [(''resolver'', ThenObject False True (Fulfilled (Number 1)))])
   \<and> ResultPromise_then (Fulfilled (Result_ok Undefined))
        (Some (returning (ThenObject False True (Fulfilled (Number 1))))) None ()
       = (Fulfilled (Result_ok (ThenObject False True (Fulfilled (Number 1)))), ())"
  by (simp add: handleValueResolution_def isThenable_def logging_def returning_def
      Result_ok_def ResultPromise_then_def ResultPromise_new_def void_then_def try_catch_def)

text \<open>
  Claim C9, amended. Thenable detection is by \<^verbatim>\<open>instanceof\<close>. Every value that is an
  instance of \<^verbatim>\<open>Object\<close> and whose \<^verbatim>\<open>then\<close> is an instance of \<^verbatim>\<open>Function\<close>, an ordinary
  object that merely has a \<^verbatim>\<open>then\<close> method included, is treated as a future: the algorithm
  only registers callbacks on its completion, so that the resolver is called with the value
  of the completion, the catcher with the reason of its rejection, for an asynchronous
  Result the resolver or the rejecter with the payload of its Result, and none of them
  while the value is pending. Every object with a callable \<^verbatim>\<open>then\<close> that is not an instance
  of \<^verbatim>\<open>Object\<close>, or whose \<^verbatim>\<open>then\<close> is not an instance of \<^verbatim>\<open>Function\<close>, is not detected: the
  resolver is called with the object itself. An asynchronous Result is always detected, and
  another object with a callable \<^verbatim>\<open>then\<close> exactly when it passes both tests.
\<close>

theorem thenable_detection:
  "(isThenable v \<longrightarrow>
      handleValueResolution v resolver rejecter catcher s =
        (Returned Undefined,
         case v of
           ResultPromise p \<Rightarrow>
             (case p of
                Pending \<Rightarrow> s
              | Fulfilled (OkResult x) \<Rightarrow> snd (resolver x s)
              | Fulfilled (ErrorResult e) \<Rightarrow> snd (rejecter e s)
              | Rejected reason \<Rightarrow> snd (catcher reason s))
         | ThenObject inherits then_inherits p \<Rightarrow>
             (case p of
                Pending \<Rightarrow> s
              | Fulfilled x \<Rightarrow> snd (resolver x s)
              | Rejected reason \<Rightarrow> snd (catcher reason s))
         | _ \<Rightarrow> s))
   \<and> (has_callable_then v \<and> \<not> isThenable v \<longrightarrow>
      handleValueResolution v resolver rejecter catcher s = resolver v s)
   \<and> isThenable (ResultPromise q)
   \<and> isThenable (ThenObject i t q') = (i \<and> t)
   \<and> ((\<not> i \<or> \<not> t) \<longrightarrow>
      handleValueResolution (ThenObject i t q') resolver rejecter catcher s
        = resolver (ThenObject i t q') s)"
proof (intro conjI impI)
  assume "isThenable v"
  then show "handleValueResolution v resolver rejecter catcher s =
        (Returned Undefined,
         case v of
           ResultPromise p \<Rightarrow>
             (case p of
                Pending \<Rightarrow> s
              | Fulfilled (OkResult x) \<Rightarrow> snd (resolver x s)
              | Fulfilled (ErrorResult e) \<Rightarrow> snd (rejecter e s)
              | Rejected reason \<Rightarrow> snd (catcher reason s))
         | ThenObject inherits then_inherits p \<Rightarrow>
             (case p of
                Pending \<Rightarrow> s
              | Fulfilled x \<Rightarrow> snd (resolver x s)
              | Rejected reason \<Rightarrow> snd (catcher reason s))
         | _ \<Rightarrow> s)"
    by (cases v)
      (auto simp: handleValueResolution_def isThenable_def void_then_def
        split: promise_state.splits result.splits)
next
  assume "has_callable_then v \<and> \<not> isThenable v"
  then show "handleValueResolution v resolver rejecter catcher s = resolver v s"
    by (cases v) (auto simp: handleValueResolution_def isThenable_def)
next
  show "isThenable (ResultPromise q)"
    by (simp add: isThenable_def)
  show "isThenable (ThenObject i t q') = (i \<and> t)"
    by (simp add: isThenable_def)
next
  assume "\<not> i \<or> \<not> t"
  then show "handleValueResolution (ThenObject i t q') resolver rejecter catcher s
        = resolver (ThenObject i t q') s"
    by (auto simp: handleValueResolution_def isThenable_def)
qed

text \<open>
  An ordinary object \<^verbatim>\<open>{ then(f) { f(1) } }\<close>: the resolver receives 1. The same object
  without \<^verbatim>\<open>Object.prototype\<close> on its chain, and the same object with a \<^verbatim>\<open>then\<close> that is not
  an instance of \<^verbatim>\<open>Function\<close>: the resolver receives the object.
\<close>

theorem thenable_detection_witness:
  "isThenable (ThenObject True True (Fulfilled (Number 1)))
   \<and> handleValueResolution (ThenObject True True (Fulfilled (Number 1)))
        (logging ''resolver'') (logging ''rejecter'') (logging ''catcher'') []
       = (Returned Undefined, [(''resolver'', Number 1)])
   \<and> has_callable_then (ThenObject False True (Fulfilled (Number 1)))
   \<and> \<not> isThenable (ThenObject False True (Fulfilled (Number 1)))
   \<and> handleValueResolution (ThenObject False True (Fulfilled (Number 1)))
        (logging ''resolver'') (logging ''rejecter'') (logging ''catcher'') []
       = (Returned Undefined, [(''resolver'', ThenObject False True (Fulfilled (Number 1)))])
   \<and> has_callable_then (ThenObject True False (Fulfilled (Number 1)))
   \<and> \<not> isThenable (ThenObject True False (Fulfilled (Number 1)))
   \<and> handleValueResolution (ThenObject True False (Fulfilled (Number 1)))
        (logging ''resolver'') (logging ''rejecter'') (logging ''catcher'') []
       = (Returned Undefined, [(''resolver'', ThenObject True False (Fulfilled (Number 1)))])"
  using
    thenable_detection [where v = "ThenObject True True (Fulfilled (Number 1))"
      and resolver = "logging ''resolver''" and rejecter = "logging ''rejecter''"
      and catcher = "logging ''catcher''" and s = "[]"
      and i = True and t = True and q' = "Fulfilled (Number 1)"]
    thenable_detection [where v = "ThenObject False True (Fulfilled (Number 1))"
      and resolver = "logging ''resolver''" and rejecter = "logging ''rejecter''"
      and catcher = "logging ''catcher''" and s = "[]"
      and i = False and t = True and q' = "Fulfilled (Number 1)"]
    thenable_detection [where v = "ThenObject True False (Fulfilled (Number 1))"
      and resolver = "logging ''resolver''" and rejecter = "logging ''rejecter''"
      and catcher = "logging ''catcher''" and s = "[]"
      and i = True and t = False and q' = "Fulfilled (Number 1)"]
  by (simp add: logging_def)

text \<open>
  Claim C10. On a Failure, \<^verbatim>\<open>mapAsync\<close> and \<^verbatim>\<open>andThenAsync\<close> do not call their function (the
  state is left as it was) and return an asynchronous Result settled as a Failure with the
  same error: settled, not faulted.
\<close>

theorem failure_async_bridge:
  "result_mapAsync (Result_error e) fn s
     = (Returned (ResultPromise (Fulfilled (Result_error e))), s)
   \<and> result_andThenAsync (Result_error e) fn s
     = (Returned (ResultPromise (Fulfilled (Result_error e))), s)"
  by (simp add: Result_error_def ErrorResult_mapAsync_def ErrorResult_andThenAsync_def
      ResultPromise_error_def ResultPromise_new_def)

end
